theory Spec2Isabelle
  imports Main "HOL-Library.Word"
begin

unbundle bit_operations_syntax

section \<open>ArrayBlockingQueue (array\_blocking\_queue.hpp)\<close>

text \<open>
  \<^verbatim>\<open>std::size_t\<close> is a 64-bit unsigned integer: \<open>+\<close> and \<open>-\<close> wrap around.
\<close>

type_synonym size_t = "64 word"

text \<open>
  The data members of \<^verbatim>\<open>ArrayBlockingQueue<T, N>\<close>. The \<^verbatim>\<open>std::array<T, N> _queue\<close> is
  a list of length \<open>N\<close>; \<^verbatim>\<open>std::mutex _mutex\<close> is the flag "held by some thread". The
  two condition variables carry no data: they only wake threads that wait, and a
  thread that waits is modelled by the outcome \<open>Blocked\<close> below.
\<close>

record 'a ArrayBlockingQueue =
  queue :: "'a list"
  mutex :: bool
  put_idx :: size_t
  take_idx :: size_t
  count :: size_t

text \<open>
  The constructor has an empty body: the indices and the count take their default member
  initialisers (0), the mutex is free, and the array holds whatever elements \<open>buf\<close>
  the default initialisation of \<open>N\<close> values of type \<open>T\<close> leaves there.
\<close>

definition ArrayBlockingQueue_ctor :: "'a list \<Rightarrow> 'a ArrayBlockingQueue" where
  "ArrayBlockingQueue_ctor buf =
     \<lparr>queue = buf, mutex = False, put_idx = 0, take_idx = 0, count = 0\<rparr>"

text \<open>\<^verbatim>\<open>cap()\<close> returns \<^verbatim>\<open>_queue.max_size()\<close>, the template parameter \<open>N\<close> as a \<^verbatim>\<open>size_t\<close>.\<close>

definition cap :: "'a ArrayBlockingQueue \<Rightarrow> size_t" where
  "cap q = of_nat (length (queue q))"

text \<open>\<^verbatim>\<open>size()\<close>: \<^verbatim>\<open>return this->cap() - _count;\<close>\<close>

definition size_q :: "'a ArrayBlockingQueue \<Rightarrow> size_t" where
  "size_q q = cap q - count q"

text \<open>\<^verbatim>\<open>empty()\<close>: \<^verbatim>\<open>return _count == 0;\<close>\<close>

definition empty_q :: "'a ArrayBlockingQueue \<Rightarrow> bool" where
  "empty_q q = (count q = 0)"

text \<open>\<^verbatim>\<open>full()\<close>: \<^verbatim>\<open>return _count == this->cap();\<close>\<close>

definition full :: "'a ArrayBlockingQueue \<Rightarrow> bool" where
  "full q = (count q = cap q)"

text \<open>
  \<^verbatim>\<open>insert\<close> (both overloads have the same body): store at \<^verbatim>\<open>_put_idx\<close>, pre-increment the
  index and wrap it to 0 when it reaches \<^verbatim>\<open>cap()\<close>, then increment the count. An index
  outside the array is undefined behaviour in C++; the invariant \<open>abq_inv\<close> below, which
  the public operations keep, has both indices inside the array.
\<close>

definition insert_q :: "'a \<Rightarrow> 'a ArrayBlockingQueue \<Rightarrow> 'a ArrayBlockingQueue" where
  "insert_q ele q =
     (let q1 = q\<lparr>queue := (queue q)[unat (put_idx q) := ele]\<rparr>;
          q2 = q1\<lparr>put_idx := put_idx q1 + 1\<rparr>;
          q3 = (if put_idx q2 = cap q2 then q2\<lparr>put_idx := 0\<rparr> else q2)
      in q3\<lparr>count := count q3 + 1\<rparr>)"

text \<open>
  \<^verbatim>\<open>remove\<close>: take the element at \<^verbatim>\<open>_take_idx\<close>, pre-increment the index and wrap it,
  decrement the count, return the element. The element is moved out of the slot; the
  slot keeps a valid value of \<open>T\<close> that no operation reads before \<^verbatim>\<open>insert\<close> overwrites
  it, and the model leaves the list cell as it is (what a move of an \<^verbatim>\<open>int\<close> does).
\<close>

definition remove_q :: "'a ArrayBlockingQueue \<Rightarrow> 'a \<times> 'a ArrayBlockingQueue" where
  "remove_q q =
     (let ele = queue q ! unat (take_idx q);
          q1 = q\<lparr>take_idx := take_idx q + 1\<rparr>;
          q2 = (if take_idx q1 = cap q1 then q1\<lparr>take_idx := 0\<rparr> else q1)
      in (ele, q2\<lparr>count := count q2 - 1\<rparr>))"

subsection \<open>The public operations\<close>

text \<open>
  A call either returns a value and leaves a state, or throws and leaves a state (no
  operation of the queue throws), or the calling thread waits:
  for the mutex (the constructor of \<^verbatim>\<open>std::unique_lock\<close>) or inside
  \<^verbatim>\<open>condition_variable::wait\<close>, which releases the mutex while it sleeps and holds it
  again when its predicate is true. \<open>Blocked s\<close> is a call that cannot return from the
  state it meets: it returns only after another thread has changed the state, and in a
  single-threaded run it never returns. Every operation is one critical section, so a
  run of several threads is a sequence of such calls in the order of their critical
  sections.
\<close>

datatype error =
    Runtime_error string
  | NetException string
  | Assertion_failed
  | Invalid_pointer

datatype ('r, 's) outcome = Returned 'r 's | Blocked 's | Thrown error 's

fun state_of :: "('r, 's) outcome \<Rightarrow> 's" where
  "state_of (Returned r s) = s"
| "state_of (Blocked s) = s"
| "state_of (Thrown e s) = s"

text \<open>
  \<^verbatim>\<open>_mutex.try_lock()\<close> and \<^verbatim>\<open>_mutex.unlock()\<close>: \<^verbatim>\<open>try_lock\<close> takes a free mutex and
  fails on a held one.
\<close>

definition try_lock :: "'a ArrayBlockingQueue \<Rightarrow> bool \<times> 'a ArrayBlockingQueue" where
  "try_lock q = (if mutex q then (False, q) else (True, q\<lparr>mutex := True\<rparr>))"

definition unlock :: "'a ArrayBlockingQueue \<Rightarrow> 'a ArrayBlockingQueue" where
  "unlock q = q\<lparr>mutex := False\<rparr>"

text \<open>
  \<^verbatim>\<open>push\<close> (both overloads): take the mutex, wait until \<^verbatim>\<open>!full()\<close>, insert, release the
  mutex at the end of the scope.
\<close>

definition push :: "'a \<Rightarrow> 'a ArrayBlockingQueue \<Rightarrow> (unit, 'a ArrayBlockingQueue) outcome" where
  "push ele q =
     (if mutex q then Blocked q
      else let q1 = q\<lparr>mutex := True\<rparr> in
        if full q1 then Blocked (unlock q1)
        else Returned () (unlock (insert_q ele q1)))"

text \<open>
  \<^verbatim>\<open>try_push(T &&ele)\<close>:
  \<^verbatim>\<open>if (_mutex.try_lock() && !full()) { insert; _mutex.unlock(); ...; return true; } return false;\<close>
  When \<^verbatim>\<open>try_lock\<close> succeeds and the queue is full, the function returns false and
  the mutex stays held.
\<close>

definition try_push_rv :: "'a \<Rightarrow> 'a ArrayBlockingQueue \<Rightarrow> (bool, 'a ArrayBlockingQueue) outcome" where
  "try_push_rv ele q =
     (let (locked, q1) = try_lock q in
      if locked \<and> \<not> full q1 then Returned True (unlock (insert_q ele q1))
      else Returned False q1)"

text \<open>
  \<^verbatim>\<open>try_push(const T &ele)\<close>: the same, with the mutex released before the function
  returns false on a full queue.
\<close>

definition try_push_cref :: "'a \<Rightarrow> 'a ArrayBlockingQueue \<Rightarrow> (bool, 'a ArrayBlockingQueue) outcome" where
  "try_push_cref ele q =
     (let (locked, q1) = try_lock q in
      if locked then
        (if full q1 then Returned False (unlock q1)
         else Returned True (unlock (insert_q ele q1)))
      else Returned False q1)"

text \<open>
  \<^verbatim>\<open>wait_push\<close> (both overloads): take the mutex, then
  \<^verbatim>\<open>res = _not_full.wait_for(lock, wait_duration, [this]() { return !full(); })\<close>, which
  returns the value of the predicate when it becomes true or when the duration has
  elapsed, with the mutex held; insert when \<open>res\<close>. The duration decides how long the
  call takes, not what it returns from a given state, so it is not an argument here.
\<close>

definition wait_push :: "'a \<Rightarrow> 'a ArrayBlockingQueue \<Rightarrow> (bool, 'a ArrayBlockingQueue) outcome" where
  "wait_push ele q =
     (if mutex q then Blocked q
      else let q1 = q\<lparr>mutex := True\<rparr>;
               res = \<not> full q1;
               q2 = (if res then insert_q ele q1 else q1)
           in Returned res (unlock q2))"

text \<open>\<^verbatim>\<open>pop\<close>: take the mutex, wait until \<^verbatim>\<open>!empty()\<close>, remove, return the element.\<close>

definition pop :: "'a ArrayBlockingQueue \<Rightarrow> ('a, 'a ArrayBlockingQueue) outcome" where
  "pop q =
     (if mutex q then Blocked q
      else let q1 = q\<lparr>mutex := True\<rparr> in
        if empty_q q1 then Blocked (unlock q1)
        else let (ele, q2) = remove_q q1 in Returned ele (unlock q2))"

text \<open>
  \<^verbatim>\<open>try_pop(T &ele)\<close>: the result is the returned flag and the value of the reference
  argument \<open>ele\<close> after the call.
\<close>

definition try_pop :: "'a \<Rightarrow> 'a ArrayBlockingQueue \<Rightarrow> (bool \<times> 'a, 'a ArrayBlockingQueue) outcome" where
  "try_pop ele q =
     (let (locked, q1) = try_lock q in
      if locked then
        (if empty_q q1 then Returned (False, ele) (unlock q1)
         else let (ele', q2) = remove_q q1 in Returned (True, ele') (unlock q2))
      else Returned (False, ele) q1)"

text \<open>\<^verbatim>\<open>wait_pop(T &ele, duration)\<close>: as \<^verbatim>\<open>wait_push\<close>, with \<^verbatim>\<open>!empty()\<close> and \<^verbatim>\<open>remove\<close>.\<close>

definition wait_pop :: "'a \<Rightarrow> 'a ArrayBlockingQueue \<Rightarrow> (bool \<times> 'a, 'a ArrayBlockingQueue) outcome" where
  "wait_pop ele q =
     (if mutex q then Blocked q
      else let q1 = q\<lparr>mutex := True\<rparr>;
               res = \<not> empty_q q1
           in if res then (let (ele', q2) = remove_q q1 in Returned (True, ele') (unlock q2))
              else Returned (False, ele) (unlock q1))"

subsection \<open>Sequences of calls\<close>

text \<open>The public operations, each with its arguments, and what a call returns.\<close>

datatype 'a call =
    Push 'a
  | Try_push_rv 'a
  | Try_push_cref 'a
  | Wait_push 'a
  | Pop
  | Try_pop 'a
  | Wait_pop 'a

datatype 'a ret = Void | Flag bool | Elem 'a | Flag_elem bool 'a

fun do_call :: "'a call \<Rightarrow> 'a ArrayBlockingQueue \<Rightarrow> ('a ret, 'a ArrayBlockingQueue) outcome" where
  "do_call (Push e) q = map_outcome (\<lambda>_. Void) id (push e q)"
| "do_call (Try_push_rv e) q = map_outcome Flag id (try_push_rv e q)"
| "do_call (Try_push_cref e) q = map_outcome Flag id (try_push_cref e q)"
| "do_call (Wait_push e) q = map_outcome Flag id (wait_push e q)"
| "do_call Pop q = map_outcome Elem id (pop q)"
| "do_call (Try_pop e) q = map_outcome (\<lambda>(b, e'). Flag_elem b e') id (try_pop e q)"
| "do_call (Wait_pop e) q = map_outcome (\<lambda>(b, e'). Flag_elem b e') id (wait_pop e q)"

text \<open>
  One thread that makes the calls in order: it stops at the first call that cannot
  return. The result is the values returned, the calls not completed (the first of them
  is the one the thread is stuck in) and the last state.
\<close>

fun single_thread ::
  "'a call list \<Rightarrow> 'a ArrayBlockingQueue \<Rightarrow> 'a ret list \<times> 'a call list \<times> 'a ArrayBlockingQueue" where
  "single_thread [] q = ([], [], q)"
| "single_thread (c # cs) q =
     (case do_call c q of
        Returned r q' \<Rightarrow> (let (rs, rest, q'') = single_thread cs q' in (r # rs, rest, q''))
      | Blocked q' \<Rightarrow> ([], c # cs, q')
      | Thrown e q' \<Rightarrow> ([], c # cs, q'))"

text \<open>
  Several threads: the calls in the order of their critical sections. A call that meets
  a state from which it cannot return leaves that state to the calls of the other
  threads (it is in the sequence again, later, where it returns).
\<close>

fun interleaved :: "'a call list \<Rightarrow> 'a ArrayBlockingQueue \<Rightarrow> 'a ArrayBlockingQueue" where
  "interleaved [] q = q"
| "interleaved (c # cs) q = interleaved cs (state_of (do_call c q))"

text \<open>
  The invariant of the data model: the count is at most \<open>N\<close> and both indices are below
  \<open>N\<close>, where \<open>N\<close>, the length of the array, is a value of \<^verbatim>\<open>size_t\<close>.
\<close>

definition abq_inv :: "'a ArrayBlockingQueue \<Rightarrow> bool" where
  "abq_inv q \<longleftrightarrow>
     length (queue q) < 2 ^ 64
     \<and> unat (count q) \<le> length (queue q)
     \<and> unat (put_idx q) < length (queue q)
     \<and> unat (take_idx q) < length (queue q)"

section \<open>TimeTicker (time\_ticker.cpp)\<close>

text \<open>
  The data members: \<^verbatim>\<open>Timeout _timeout\<close> (a \<^verbatim>\<open>struct timeval\<close>: seconds and
  microseconds), \<^verbatim>\<open>fd_set _readfds\<close> (the set of the descriptors whose bit is set) and
  \<^verbatim>\<open>int _pipefds[2]\<close> (read end, write end). \<open>pipe_buf\<close> is the kernel's side of the
  pipe that the constructor creates: the bytes written to the write end and not yet
  read from the read end. Only the ticker holds the two descriptors.
\<close>

record TimeTicker =
  timeout :: "int \<times> int"
  readfds :: "int set"
  pipefds :: "int \<times> int"
  pipe_buf :: string

text \<open>
  The constructors: \<^verbatim>\<open>pipe(_pipefds)\<close> returns \<open>pip_ret\<close> and, when it is 0, has stored
  the two descriptors \<open>fds\<close>; any other value throws. The default constructor is the
  case of the timeout \<open>(0, 0)\<close>.
\<close>

definition TimeTicker_ctor ::
  "int \<Rightarrow> int \<times> int \<Rightarrow> int \<Rightarrow> int \<Rightarrow> (unit, TimeTicker option) outcome" where
  "TimeTicker_ctor pip_ret fds seconds microSeconds =
     (if pip_ret \<noteq> 0 then Thrown (Runtime_error ''TimeTicker create pipe error.'') None
      else Returned () (Some \<lparr>timeout = (seconds, microSeconds), readfds = {},
                               pipefds = fds, pipe_buf = []\<rparr>))"




text \<open>
  The system call \<^verbatim>\<open>select(nfds, &readfds, NULL, NULL, &timeout)\<close>, as POSIX
  describes it, at the moment it returns: \<open>-1\<close> when the call itself fails (the set is
  then left as it was); otherwise the set keeps the descriptors below \<open>nfds\<close> that are
  readable, and the call returns their number, which is 0 when the timeout has
  elapsed with none of them readable. Whether the call fails is the kernel's decision:
  the flag \<open>fails\<close>. A descriptor that becomes readable while the call waits is readable
  when it returns.
\<close>

definition select ::
  "bool \<Rightarrow> (int \<Rightarrow> bool) \<Rightarrow> int \<Rightarrow> int set \<Rightarrow> int \<times> int \<Rightarrow> int \<times> int set" where
  "select fails readable nfds fds tmo =
     (if fails then (- 1, fds)
      else let ready = {fd \<in> fds. fd < nfds \<and> readable fd} in (int (card ready), ready))"

text \<open>The read end of the ticker's pipe is readable when the pipe holds a byte.\<close>

definition readable :: "TimeTicker \<Rightarrow> int \<Rightarrow> bool" where
  "readable t fd \<longleftrightarrow> fd = fst (pipefds t) \<and> pipe_buf t \<noteq> []"




section \<open>Socket (socket.cpp)\<close>

text \<open>
  The values that the socket owns: a protocol (\<^verbatim>\<open>family()\<close>, \<^verbatim>\<open>type()\<close>,
  \<^verbatim>\<open>protocol()\<close>) and an address (\<^verbatim>\<open>ip()\<close>, \<^verbatim>\<open>port()\<close>). Their classes are declared
  in headers that are not among the sources; the socket uses these accessors only.
\<close>

record Protocol =
  family :: int
  socktype :: int
  proto :: int

record Address =
  ip :: string
  port :: nat

datatype object = ProtocolObj Protocol | AddressObj Address

text \<open>\<^verbatim>\<open>struct sockaddr_in\<close>.\<close>

record sockaddr_in =
  sin_family :: int
  sin_port :: "16 word"
  sin_addr :: "32 word"

text \<open>
  What a call does outside the socket object, in the order it does it: system calls,
  the call of the helper \<^verbatim>\<open>Posix::non_blocking\<close> (declared in \<^verbatim>\<open>net/posix.hpp\<close>, not
  among the sources), a registration of a task with an executor, a call of a completion
  callback with its two arguments.
\<close>

type_synonym OPCollection = "32 word"

datatype event =
    Sys_socket int int int
  | Sys_close int
  | Sys_connect int sockaddr_in
  | Posix_non_blocking int bool
  | Executor_register int OPCollection
  | Callback nat "error option"

text \<open>
  The free store: the live objects by address, the next address that \<^verbatim>\<open>new\<close> hands out,
  and the addresses passed to \<^verbatim>\<open>delete\<close> so far, in order. Address 0 is the null pointer.
\<close>

type_synonym ptr = nat

record world =
  heap :: "ptr \<Rightarrow> object option"
  next_ptr :: ptr
  released :: "ptr list"
  trace :: "event list"

definition new :: "object \<Rightarrow> world \<Rightarrow> ptr \<times> world" where
  "new obj w = (next_ptr w, w\<lparr>heap := (heap w)(next_ptr w \<mapsto> obj), next_ptr := Suc (next_ptr w)\<rparr>)"

definition delete :: "ptr \<Rightarrow> world \<Rightarrow> world" where
  "delete p w =
     (if p = 0 then w else w\<lparr>heap := (heap w)(p := None), released := released w @ [p]\<rparr>)"

definition emit :: "event \<Rightarrow> world \<Rightarrow> world" where
  "emit ev w = w\<lparr>trace := trace w @ [ev]\<rparr>"

text \<open>
  The data members of \<^verbatim>\<open>net::tcp::Socket\<close>: \<^verbatim>\<open>_native_handle\<close>, the owning pointers
  \<^verbatim>\<open>_protocol\<close> and \<^verbatim>\<open>_remote_address\<close>, \<^verbatim>\<open>_non_blocking\<close> and \<^verbatim>\<open>_open\<close>.
\<close>

record Socket =
  native_handle :: int
  protocol :: ptr
  remote_address :: ptr
  non_blocking :: bool
  sock_open :: bool

text \<open>
  \<^verbatim>\<open>void Socket::non_blocking(bool non_block)\<close>: store the flag and pass it to
  \<^verbatim>\<open>Posix::non_blocking\<close>.
\<close>

definition set_non_blocking :: "bool \<Rightarrow> Socket \<times> world \<Rightarrow> Socket \<times> world" where
  "set_non_blocking non_block sw =
     (case sw of (s, w) \<Rightarrow>
        (s\<lparr>non_blocking := non_block\<rparr>, emit (Posix_non_blocking (native_handle s) non_block) w))"

text \<open>
  The two constructors with arguments have the same body: copy the protocol and the
  address into new objects, create the descriptor with \<^verbatim>\<open>::socket\<close> (which returns
  \<open>fd\<close>), assert that it is not \<open>-1\<close>, switch to non-blocking mode. The constructor does
  not assign \<^verbatim>\<open>_open\<close>: its value \<open>open0\<close> is the default member initialiser of the
  class declaration in \<^verbatim>\<open>net/tcp/socket.hpp\<close>, which is not among the sources. That
  declaration also fixes which of the two copies is made first; the model makes them
  in the order of the initialiser list.
\<close>

definition Socket_ctor ::
  "int \<Rightarrow> bool \<Rightarrow> Protocol \<Rightarrow> Address \<Rightarrow> world \<Rightarrow> (unit, Socket \<times> world) outcome" where
  "Socket_ctor fd open0 pr remote w =
     (let (p, w1) = new (ProtocolObj pr) w;
          (a, w2) = new (AddressObj remote) w1;
          w3 = emit (Sys_socket (family pr) (socktype pr) (proto pr)) w2;
          s = \<lparr>native_handle = fd, protocol = p, remote_address = a,
               non_blocking = False, sock_open = open0\<rparr>
      in if fd = - 1 then Thrown Assertion_failed (s, w3)
         else Returned () (set_non_blocking True (s, w3)))"

text \<open>\<^verbatim>\<open>Socket::~Socket() { delete _remote_address; }\<close>\<close>

definition Socket_dtor :: "Socket \<Rightarrow> world \<Rightarrow> world" where
  "Socket_dtor s w = delete (remote_address s) w"

text \<open>
  \<^verbatim>\<open>Socket::recv\<close> and \<^verbatim>\<open>Socket::send\<close>: the bodies are empty. The arguments are the
  buffer, its size, the executor and the callback.
\<close>

definition recv :: "nat \<Rightarrow> nat \<Rightarrow> nat \<Rightarrow> nat \<Rightarrow> Socket \<times> world \<Rightarrow> Socket \<times> world" where
  "recv data sz executor cb sw = sw"

definition send :: "nat \<Rightarrow> nat \<Rightarrow> nat \<Rightarrow> nat \<Rightarrow> Socket \<times> world \<Rightarrow> Socket \<times> world" where
  "send data sz executor cb sw = sw"

text \<open>
  \<^verbatim>\<open>Socket::TCPSocketIOTask\<close>: a pointer to the socket (here the socket's handle, all
  the task takes from it) and the callback. The bits of \<^verbatim>\<open>Selectable::OP\<close> are declared
  in a header that is not among the sources: they are the parameter \<open>bits\<close>.
\<close>

record OP =
  READ :: OPCollection
  WRITE :: OPCollection
  EXCEPT :: OPCollection
  REMOTE_CLOSE :: OPCollection

record TCPSocketIOTask =
  task_socket :: int
  task_callback :: nat

text \<open>\<^verbatim>\<open>operator()(Selectable::OPCollection ops)\<close>: four tests in order, each branch empty.\<close>

definition TCPSocketIOTask_call :: "OP \<Rightarrow> OPCollection \<Rightarrow> TCPSocketIOTask \<Rightarrow> world \<Rightarrow> world" where
  "TCPSocketIOTask_call bits ops task w =
     (if ops AND EXCEPT bits \<noteq> 0 then w
      else if ops AND REMOTE_CLOSE bits \<noteq> 0 then w
      else if ops AND READ bits \<noteq> 0 then w
      else if ops AND WRITE bits \<noteq> 0 then w
      else w)"

text \<open>\<^verbatim>\<open>interest()\<close>: \<^verbatim>\<open>return 0;\<close>\<close>

definition TCPSocketIOTask_interest :: "TCPSocketIOTask \<Rightarrow> OPCollection" where
  "TCPSocketIOTask_interest task = 0"

text \<open>
  \<^verbatim>\<open>Socket::close()\<close>: nothing when the socket is not open or the handle is below 1;
  otherwise clear \<^verbatim>\<open>_open\<close>, call \<^verbatim>\<open>::close\<close> (which returns \<open>res\<close>), and throw a
  \<^verbatim>\<open>NetException\<close> with the text of \<^verbatim>\<open>strerror(errno)\<close> (\<open>msg\<close>) when \<open>res\<close> is not 0.
\<close>

definition close :: "int \<Rightarrow> string \<Rightarrow> Socket \<times> world \<Rightarrow> (unit, Socket \<times> world) outcome" where
  "close res msg sw =
     (case sw of (s, w) \<Rightarrow>
        if \<not> sock_open s \<or> native_handle s < 1 then Returned () (s, w)
        else let s1 = s\<lparr>sock_open := False\<rparr>;
                 w1 = emit (Sys_close (native_handle s1)) w
             in if res \<noteq> 0 then Thrown (NetException msg) (s1, w1)
                else Returned () (s1, w1))"

text \<open>
  Further \<^verbatim>\<open>close()\<close> calls, one after the other; each has its own result of
  \<^verbatim>\<open>::close\<close> and error text, should it come to the system call. The run stops at a
  call that throws.
\<close>

fun closes :: "(int \<times> string) list \<Rightarrow> Socket \<times> world \<Rightarrow> (unit, Socket \<times> world) outcome" where
  "closes [] sw = Returned () sw"
| "closes ((res, msg) # rs) sw =
     (case close res msg sw of
        Returned u sw' \<Rightarrow> closes rs sw'
      | Blocked sw' \<Rightarrow> Blocked sw'
      | Thrown e sw' \<Rightarrow> Thrown e sw')"

text \<open>
  \<^verbatim>\<open>htonl\<close> on a little-endian host reverses the four bytes; \<^verbatim>\<open>INADDR_ANY\<close> is 0.
\<close>

definition INADDR_ANY :: "32 word" where
  "INADDR_ANY = 0"

definition htonl :: "32 word \<Rightarrow> 32 word" where
  "htonl x =
     push_bit 24 (x AND 255) OR push_bit 8 (x AND 65280)
     OR drop_bit 8 (x AND 16711680) OR drop_bit 24 x"

text \<open>
  \<^verbatim>\<open>Socket::connect()\<close>: read ip and port through \<^verbatim>\<open>_remote_address\<close> and the family
  through \<^verbatim>\<open>_protocol\<close>, build the address with \<^verbatim>\<open>Posix::sock_address\<close> (not among the
  sources: the parameter \<open>sock_address\<close>), overwrite its \<^verbatim>\<open>sin_addr.s_addr\<close> with
  \<^verbatim>\<open>htonl(INADDR_ANY)\<close> when the ip is empty and with \<^verbatim>\<open>inet_addr(ip.c_str())\<close>
  otherwise (the C library's parser: the parameter \<open>inet_addr\<close>), call \<^verbatim>\<open>::connect\<close>
  (which returns \<open>ret\<close>) and return \<open>ret\<close>. A pointer that does not point to a live
  object of its type cannot be followed.
\<close>

definition connect ::
  "(string \<Rightarrow> nat \<Rightarrow> int \<Rightarrow> sockaddr_in) \<Rightarrow> (string \<Rightarrow> 32 word) \<Rightarrow> int
   \<Rightarrow> Socket \<times> world \<Rightarrow> (int, Socket \<times> world) outcome" where
  "connect sock_address inet_addr ret sw =
     (case sw of (s, w) \<Rightarrow>
        (case (heap w (remote_address s), heap w (protocol s)) of
           (Some (AddressObj addr), Some (ProtocolObj pr)) \<Rightarrow>
             (let ip' = ip addr;
                  port' = port addr;
                  s_addr = sock_address ip' port' (family pr);
                  s_addr' = (if ip' = [] then s_addr\<lparr>sin_addr := htonl INADDR_ANY\<rparr>
                             else s_addr\<lparr>sin_addr := inet_addr ip'\<rparr>)
              in Returned ret (s, emit (Sys_connect (native_handle s) s_addr') w))
         | _ \<Rightarrow> Thrown Invalid_pointer (s, w)))"

section \<open>Properties of the queue\<close>

subsection \<open>Arithmetic on \<^verbatim>\<open>size_t\<close>\<close>

lemma unat_cap: "length (queue q) < 2 ^ 64 \<Longrightarrow> unat (cap q) = length (queue q)"
  by (simp add: cap_def unat_of_nat)

lemma size_t_succ: "unat (x :: size_t) < n \<Longrightarrow> n < 2 ^ 64 \<Longrightarrow> unat (x + 1) = unat x + 1"
  by (simp add: unat_word_ariths)

lemma size_t_pred: "(x :: size_t) \<noteq> 0 \<Longrightarrow> unat (x - 1) = unat x - 1"
  by unat_arith

lemma size_t_eq_cap: "length (queue q) < 2 ^ 64 \<Longrightarrow> (x = cap q) = (unat x = length (queue q))"
  using unat_cap [of q] by (auto simp: word_unat_eq_iff)

subsection \<open>size()\<close>

text \<open>
  C1. The claim: \<open>size()\<close> returns the current element count. On a queue of capacity 2
  that has just been constructed the count is 0 and \<open>size()\<close> returns 2, the free capacity.
\<close>

theorem size_returns_free_capacity:
  "count (ArrayBlockingQueue_ctor [0, 0 :: int]) = 0
   \<and> size_q (ArrayBlockingQueue_ctor [0, 0 :: int]) = 2"
  by (simp add: ArrayBlockingQueue_ctor_def size_q_def cap_def)

text \<open>
  In general \<open>size()\<close> and the count add up to the capacity, so \<open>size()\<close> is the count
  only when the queue is exactly half full.
\<close>

lemma size_q_plus_count: "size_q q + count q = cap q"
  by (simp add: size_q_def)

subsection \<open>The example of capacity 2\<close>

text \<open>
  C2. The claim: on an empty queue of capacity 2, \<open>push(1)\<close> and \<open>push(2)\<close> return,
  \<open>try_push(3)\<close> returns false, \<open>pop()\<close> returns 1, \<open>try_push(3)\<close> returns true, and two
  more pops return 2 and 3. The argument \<open>3\<close> is an rvalue, so \<open>try_push(3)\<close> is the
  overload \<^verbatim>\<open>try_push(T &&)\<close>. The run below: the two pushes return, \<open>try_push(3)\<close>
  returns false and leaves the mutex held, and the following \<open>pop()\<close> waits for the
  mutex: it does not return, and the last four calls are not completed. (The mutex is
  not recursive: it makes no difference that the thread that waits is the one that
  holds it.)
\<close>

theorem try_push_rvalue_keeps_mutex:
  "single_thread [Push 1, Push 2, Try_push_rv 3, Pop, Try_push_rv 3, Pop, Pop]
     (ArrayBlockingQueue_ctor [0, 0 :: int])
   = ([Void, Void, Flag False], [Pop, Try_push_rv 3, Pop, Pop],
      \<lparr>queue = [1, 2], mutex = True, put_idx = 0, take_idx = 0, count = 2\<rparr>)"
  by (simp add: ArrayBlockingQueue_ctor_def push_def try_push_rv_def pop_def try_lock_def
      unlock_def full_def empty_q_def cap_def insert_q_def remove_q_def Let_def)

text \<open>
  With the overload \<^verbatim>\<open>try_push(const T &)\<close>, which releases the mutex on a full queue,
  the same run gives the values of the example.
\<close>

lemma try_push_cref_example:
  "single_thread [Push 1, Push 2, Try_push_cref 3, Pop, Try_push_cref 3, Pop, Pop]
     (ArrayBlockingQueue_ctor [0, 0 :: int])
   = ([Void, Void, Flag False, Elem 1, Flag True, Elem 2, Elem 3], [],
      \<lparr>queue = [3, 2], mutex = False, put_idx = 1, take_idx = 1, count = 0\<rparr>)"
  by (simp add: ArrayBlockingQueue_ctor_def push_def try_push_cref_def pop_def try_lock_def
      unlock_def full_def empty_q_def cap_def insert_q_def remove_q_def Let_def)

text \<open>
  The two overloads differ in one case only: the mutex is free and the queue is full.
\<close>

lemma try_push_overloads:
  "try_push_rv ele q =
     (if \<not> mutex q \<and> full q then Returned False (q\<lparr>mutex := True\<rparr>) else try_push_cref ele q)"
  by (simp add: try_push_rv_def try_push_cref_def try_lock_def unlock_def full_def cap_def)

subsection \<open>The invariant\<close>

lemma abq_inv_mutex [simp]: "abq_inv (q\<lparr>mutex := b\<rparr>) = abq_inv q"
  by (simp add: abq_inv_def)

lemma full_mutex [simp]: "full (q\<lparr>mutex := b\<rparr>) = full q"
  by (simp add: full_def cap_def)

lemma empty_q_mutex [simp]: "empty_q (q\<lparr>mutex := b\<rparr>) = empty_q q"
  by (simp add: empty_q_def)

lemma insert_q_inv:
  assumes "abq_inv q" and "\<not> full q"
  shows "abq_inv (insert_q ele q)"
proof -
  let ?n = "length (queue q)"
  from assms(1) have n: "?n < 2 ^ 64" and c: "unat (count q) \<le> ?n"
    and p: "unat (put_idx q) < ?n" and t: "unat (take_idx q) < ?n"
    by (simp_all add: abq_inv_def)
  from assms(2) n have "unat (count q) \<noteq> ?n"
    by (simp add: full_def size_t_eq_cap)
  with c have c': "unat (count q) < ?n" by simp
  have c1: "unat (count q + 1) = unat (count q) + 1"
    using c' n by (rule size_t_succ)
  have p1: "unat (put_idx q + 1) = unat (put_idx q) + 1"
    using p n by (rule size_t_succ)
  have wrap: "(put_idx q + 1 = of_nat ?n) = (unat (put_idx q) + 1 = ?n)"
    using size_t_eq_cap [OF n, of "put_idx q + 1"] p1 by (simp add: cap_def)
  show ?thesis
    using n c' p t c1 p1 wrap
    by (auto simp: abq_inv_def insert_q_def Let_def cap_def)
qed

lemma remove_q_inv:
  assumes "abq_inv q" and "\<not> empty_q q" and "remove_q q = (e, q')"
  shows "abq_inv q'"
proof -
  let ?n = "length (queue q)"
  from assms(1) have n: "?n < 2 ^ 64" and c: "unat (count q) \<le> ?n"
    and p: "unat (put_idx q) < ?n" and t: "unat (take_idx q) < ?n"
    by (simp_all add: abq_inv_def)
  from assms(2) have c1: "unat (count q - 1) = unat (count q) - 1"
    by (simp add: empty_q_def size_t_pred)
  have t1: "unat (take_idx q + 1) = unat (take_idx q) + 1"
    using t n by (rule size_t_succ)
  have wrap: "(take_idx q + 1 = of_nat ?n) = (unat (take_idx q) + 1 = ?n)"
    using size_t_eq_cap [OF n, of "take_idx q + 1"] t1 by (simp add: cap_def)
  have "abq_inv (snd (remove_q q))"
    using n c p t c1 t1 wrap
    by (auto simp: abq_inv_def remove_q_def Let_def cap_def)
  with assms(3) show ?thesis by simp
qed

lemma push_inv: "abq_inv q \<Longrightarrow> abq_inv (state_of (push e q))"
  by (simp add: push_def unlock_def Let_def insert_q_inv)

lemma try_push_rv_inv: "abq_inv q \<Longrightarrow> abq_inv (state_of (try_push_rv e q))"
  by (simp add: try_push_rv_def try_lock_def unlock_def insert_q_inv)

lemma try_push_cref_inv: "abq_inv q \<Longrightarrow> abq_inv (state_of (try_push_cref e q))"
  by (simp add: try_push_cref_def try_lock_def unlock_def insert_q_inv)

lemma wait_push_inv: "abq_inv q \<Longrightarrow> abq_inv (state_of (wait_push e q))"
  by (simp add: wait_push_def unlock_def Let_def insert_q_inv)

lemma pop_inv: "abq_inv q \<Longrightarrow> abq_inv (state_of (pop q))"
  by (auto simp: pop_def unlock_def Let_def split: prod.splits
      intro: remove_q_inv [where q = "q\<lparr>mutex := True\<rparr>"])

lemma try_pop_inv: "abq_inv q \<Longrightarrow> abq_inv (state_of (try_pop e q))"
  by (auto simp: try_pop_def try_lock_def unlock_def Let_def split: prod.splits
      intro: remove_q_inv [where q = "q\<lparr>mutex := True\<rparr>"])

lemma wait_pop_inv: "abq_inv q \<Longrightarrow> abq_inv (state_of (wait_pop e q))"
  by (auto simp: wait_pop_def unlock_def Let_def split: prod.splits
      intro: remove_q_inv [where q = "q\<lparr>mutex := True\<rparr>"])

lemma state_of_map_outcome [simp]: "state_of (map_outcome f id x) = state_of x"
  by (cases x) simp_all

lemma do_call_inv: "abq_inv q \<Longrightarrow> abq_inv (state_of (do_call c q))"
  by (cases c)
     (simp_all add: push_inv try_push_rv_inv try_push_cref_inv wait_push_inv pop_inv
        try_pop_inv wait_pop_inv)

lemma do_call_length: "length (queue (state_of (do_call c q))) = length (queue q)"
  by (cases c)
     (simp_all add: push_def try_push_rv_def try_push_cref_def wait_push_def pop_def try_pop_def
        wait_pop_def try_lock_def unlock_def Let_def insert_q_def remove_q_def split: prod.splits)

lemma interleaved_inv: "abq_inv q \<Longrightarrow> abq_inv (interleaved cs q)"
  by (induction cs arbitrary: q) (simp_all add: do_call_inv)

lemma interleaved_length: "length (queue (interleaved cs q)) = length (queue q)"
  by (induction cs arbitrary: q) (simp_all add: do_call_length)

text \<open>
  A queue of capacity at least 1 satisfies the invariant when it is constructed. (With
  \<open>N = 0\<close> no index is below \<open>N\<close>; every push then waits and every \<open>try_push\<close> fails.)
\<close>

lemma ctor_inv:
  "buf \<noteq> [] \<Longrightarrow> length buf < 2 ^ 64 \<Longrightarrow> abq_inv (ArrayBlockingQueue_ctor buf)"
  by (simp add: abq_inv_def ArrayBlockingQueue_ctor_def)

lemma constructed_queue_inv:
  "buf \<noteq> [] \<Longrightarrow> length buf < 2 ^ 64 \<Longrightarrow>
     abq_inv (interleaved cs (ArrayBlockingQueue_ctor buf))"
  by (simp add: ctor_inv interleaved_inv)

text \<open>
  C5. For a queue of capacity \<open>N\<close>, every sequence of calls of \<open>push\<close>, \<open>try_push\<close>,
  \<open>wait_push\<close>, \<open>pop\<close>, \<open>try_pop\<close> and \<open>wait_pop\<close> (any overload, from any number of
  threads) preserves the invariant: the capacity stays \<open>N\<close>, the count stays at most
  \<open>N\<close>, and both indices stay below \<open>N\<close>.
\<close>

theorem invariant_preserved:
  assumes "abq_inv q"
  shows "let q' = interleaved cs q; N = length (queue q)
         in length (queue q') = N \<and> unat (count q') \<le> N
            \<and> unat (put_idx q') < N \<and> unat (take_idx q') < N"
  using interleaved_inv [OF assms, of cs] interleaved_length [of cs q]
  by (simp add: abq_inv_def Let_def)

theorem invariant_preserved_witness:
  "abq_inv (ArrayBlockingQueue_ctor [0, 0 :: int])
   \<and> (let q' = interleaved [Push 1, Try_push_rv 2, Wait_push 3, Pop, Try_pop 0, Wait_pop 0]
                  (ArrayBlockingQueue_ctor [0, 0 :: int])
      in length (queue q') = 2 \<and> unat (count q') \<le> 2
         \<and> unat (put_idx q') < 2 \<and> unat (take_idx q') < 2)"
proof -
  have h: "abq_inv (ArrayBlockingQueue_ctor [0, 0 :: int])"
    by (simp add: abq_inv_def ArrayBlockingQueue_ctor_def)
  show ?thesis
    using h invariant_preserved [OF h,
        of "[Push 1, Try_push_rv 2, Wait_push 3, Pop, Try_pop 0, Wait_pop 0]"]
    by (simp add: Let_def ArrayBlockingQueue_ctor_def)
qed

subsection \<open>The timed operations\<close>

text \<open>What \<open>insert\<close> and \<open>remove\<close> do to each member.\<close>

lemma insert_q_fields:
  "queue (insert_q ele q) = (queue q)[unat (put_idx q) := ele]"
  "count (insert_q ele q) = count q + 1"
  "put_idx (insert_q ele q) = (if put_idx q + 1 = cap q then 0 else put_idx q + 1)"
  "take_idx (insert_q ele q) = take_idx q"
  "mutex (insert_q ele q) = mutex q"
  by (simp_all add: insert_q_def Let_def cap_def)

lemma remove_q_fields:
  "fst (remove_q q) = queue q ! unat (take_idx q)"
  "queue (snd (remove_q q)) = queue q"
  "count (snd (remove_q q)) = count q - 1"
  "take_idx (snd (remove_q q)) = (if take_idx q + 1 = cap q then 0 else take_idx q + 1)"
  "put_idx (snd (remove_q q)) = put_idx q"
  "mutex (snd (remove_q q)) = mutex q"
  by (simp_all add: remove_q_def Let_def cap_def)

lemma insert_q_stores: "abq_inv q \<Longrightarrow> queue (insert_q ele q) ! unat (put_idx q) = ele"
  by (simp add: insert_q_fields abq_inv_def)

lemma insert_q_counts:
  assumes "abq_inv q" and "\<not> full q"
  shows "unat (count (insert_q ele q)) = unat (count q) + 1"
proof -
  from assms(1) have n: "length (queue q) < 2 ^ 64" and c: "unat (count q) \<le> length (queue q)"
    by (simp_all add: abq_inv_def)
  from assms(2) n have "unat (count q) \<noteq> length (queue q)"
    by (simp add: full_def size_t_eq_cap)
  with c have "unat (count q) < length (queue q)" by simp
  then have "unat (count q + 1) = unat (count q) + 1"
    using n by (rule size_t_succ)
  then show ?thesis by (simp add: insert_q_fields)
qed

lemma remove_q_counts:
  assumes "\<not> empty_q q"
  shows "unat (count (snd (remove_q q))) + 1 = unat (count q)"
proof -
  from assms have nz: "count q \<noteq> 0" by (simp add: empty_q_def)
  then have "unat (count q - 1) = unat (count q) - 1" by (rule size_t_pred)
  moreover from nz have "0 < unat (count q)" by (simp add: unat_gt_0)
  ultimately show ?thesis by (simp add: remove_q_fields)
qed

lemma wait_push_eq:
  "\<not> mutex q \<Longrightarrow>
     wait_push ele q = Returned (\<not> full q) (if full q then q else insert_q ele q)"
  by (simp add: wait_push_def unlock_def Let_def insert_q_def cap_def)

lemma wait_pop_eq:
  "\<not> mutex q \<Longrightarrow>
     wait_pop ele q =
       (if empty_q q then Returned (False, ele) q
        else Returned (True, fst (remove_q q)) (snd (remove_q q)))"
  by (simp add: wait_pop_def unlock_def Let_def remove_q_def cap_def split: prod.splits)

lemma wait_push_mutex: "mutex q \<Longrightarrow> wait_push ele q = Blocked q"
  by (simp add: wait_push_def)

lemma wait_pop_mutex: "mutex q \<Longrightarrow> wait_pop ele q = Blocked q"
  by (simp add: wait_pop_def)

text \<open>
  C9. \<open>wait_push\<close> returns true exactly when the insert happened. When it returns true
  the queue was not full and the state is the one after \<open>insert\<close>: the element is in
  the slot at the old \<^verbatim>\<open>_put_idx\<close>, the count is one more (as a number, too, under the
  invariant), the put index has moved on and the take index has not. When it returns
  false the queue was full and the state is the one before the call: buffer, indices,
  count (and mutex). So the result is true exactly when the count has gone up by one.
  The same for \<open>wait_pop\<close> with \<open>remove\<close>: true gives the element at the old
  \<^verbatim>\<open>_take_idx\<close> and a count one less, false leaves the state and the argument as they
  were. With the mutex free, both calls return, with these results.
\<close>

theorem timed_all_or_nothing:
  "(wait_push ele q = Returned res q' \<longrightarrow>
      (if res then \<not> full q \<and> q' = insert_q ele q
                  \<and> queue q' = (queue q)[unat (put_idx q) := ele]
                  \<and> count q' = count q + 1
                  \<and> put_idx q' = (if put_idx q + 1 = cap q then 0 else put_idx q + 1)
                  \<and> take_idx q' = take_idx q
                  \<and> (abq_inv q \<longrightarrow>
                        queue q' ! unat (put_idx q) = ele
                        \<and> unat (count q') = unat (count q) + 1)
       else full q \<and> q' = q)
      \<and> (res \<longleftrightarrow> count q' = count q + 1))
   \<and> (wait_pop ele q = Returned (res, ele') q' \<longrightarrow>
      (if res then \<not> empty_q q \<and> (ele', q') = remove_q q
                  \<and> ele' = queue q ! unat (take_idx q)
                  \<and> queue q' = queue q
                  \<and> count q' = count q - 1
                  \<and> take_idx q' = (if take_idx q + 1 = cap q then 0 else take_idx q + 1)
                  \<and> put_idx q' = put_idx q
                  \<and> unat (count q') + 1 = unat (count q)
       else empty_q q \<and> q' = q \<and> ele' = ele)
      \<and> (res \<longleftrightarrow> count q' = count q - 1))
   \<and> (\<not> mutex q \<longrightarrow>
      (\<exists>r s. wait_push ele q = Returned r s) \<and> (\<exists>r s. wait_pop ele q = Returned r s)
      \<and> wait_push ele q = Returned (\<not> full q) (if full q then q else insert_q ele q)
      \<and> wait_pop ele q =
          (if empty_q q then Returned (False, ele) q
           else Returned (True, fst (remove_q q)) (snd (remove_q q))))"
proof (intro conjI impI)
  assume r: "wait_push ele q = Returned res q'"
  then have m: "\<not> mutex q" by (auto simp: wait_push_mutex)
  from r wait_push_eq [OF m, of ele]
  have res: "res = (\<not> full q)" and q': "q' = (if full q then q else insert_q ele q)"
    by simp_all
  show "if res then \<not> full q \<and> q' = insert_q ele q
                  \<and> queue q' = (queue q)[unat (put_idx q) := ele]
                  \<and> count q' = count q + 1
                  \<and> put_idx q' = (if put_idx q + 1 = cap q then 0 else put_idx q + 1)
                  \<and> take_idx q' = take_idx q
                  \<and> (abq_inv q \<longrightarrow>
                        queue q' ! unat (put_idx q) = ele
                        \<and> unat (count q') = unat (count q) + 1)
       else full q \<and> q' = q"
    using res q' insert_q_stores [of q ele] insert_q_counts [of q ele]
    by (simp add: insert_q_fields)
  show "res \<longleftrightarrow> count q' = count q + 1"
    using res q' by (simp add: insert_q_fields)
next
  assume r: "wait_pop ele q = Returned (res, ele') q'"
  then have m: "\<not> mutex q" by (auto simp: wait_pop_mutex)
  from r wait_pop_eq [OF m, of ele]
  have res: "res = (\<not> empty_q q)"
    and e': "ele' = (if empty_q q then ele else fst (remove_q q))"
    and q': "q' = (if empty_q q then q else snd (remove_q q))"
    by (simp_all split: if_splits)
  show "if res then \<not> empty_q q \<and> (ele', q') = remove_q q
                  \<and> ele' = queue q ! unat (take_idx q)
                  \<and> queue q' = queue q
                  \<and> count q' = count q - 1
                  \<and> take_idx q' = (if take_idx q + 1 = cap q then 0 else take_idx q + 1)
                  \<and> put_idx q' = put_idx q
                  \<and> unat (count q') + 1 = unat (count q)
       else empty_q q \<and> q' = q \<and> ele' = ele"
    using res e' q' remove_q_counts [of q]
    by (simp add: remove_q_fields prod_eq_iff)
  show "res \<longleftrightarrow> count q' = count q - 1"
    using res q' by (simp add: remove_q_fields)
next
  assume m: "\<not> mutex q"
  show "\<exists>r s. wait_push ele q = Returned r s"
    using wait_push_eq [OF m, of ele] by simp
  show "\<exists>r s. wait_pop ele q = Returned r s"
    using wait_pop_eq [OF m, of ele] by auto
  show "wait_push ele q = Returned (\<not> full q) (if full q then q else insert_q ele q)"
    using m by (rule wait_push_eq)
  show "wait_pop ele q =
          (if empty_q q then Returned (False, ele) q
           else Returned (True, fst (remove_q q)) (snd (remove_q q)))"
    using m by (rule wait_pop_eq)
qed

theorem timed_all_or_nothing_witness:
  "wait_push (3 :: int) \<lparr>queue = [1, 2], mutex = False, put_idx = 0, take_idx = 0, count = 2\<rparr>
     = Returned False \<lparr>queue = [1, 2], mutex = False, put_idx = 0, take_idx = 0, count = 2\<rparr>
   \<and> full \<lparr>queue = [1, 2 :: int], mutex = False, put_idx = 0, take_idx = 0, count = 2\<rparr>
   \<and> wait_pop (7 :: int) (ArrayBlockingQueue_ctor [0, 0])
       = Returned (False, 7) (ArrayBlockingQueue_ctor [0, 0])
   \<and> empty_q (ArrayBlockingQueue_ctor [0, 0 :: int])
   \<and> \<not> mutex (ArrayBlockingQueue_ctor [0, 0 :: int])
   \<and> (\<exists>r s. wait_push (3 :: int) (ArrayBlockingQueue_ctor [0, 0]) = Returned r s)
   \<and> wait_push (3 :: int) (ArrayBlockingQueue_ctor [0, 0])
       = Returned True \<lparr>queue = [3, 0], mutex = False, put_idx = 1, take_idx = 0, count = 1\<rparr>
   \<and> wait_push (4 :: int)
         \<lparr>queue = [3, 0], mutex = False, put_idx = 1, take_idx = 0, count = 1\<rparr>
       = Returned True \<lparr>queue = [3, 4], mutex = False, put_idx = 0, take_idx = 0, count = 2\<rparr>
   \<and> wait_pop (7 :: int)
         \<lparr>queue = [3, 4], mutex = False, put_idx = 0, take_idx = 0, count = 2\<rparr>
       = Returned (True, 3)
           \<lparr>queue = [3, 4], mutex = False, put_idx = 0, take_idx = 1, count = 1\<rparr>"
proof -
  let ?full = "\<lparr>queue = [1, 2 :: int], mutex = False, put_idx = 0, take_idx = 0, count = 2\<rparr>"
  let ?new = "ArrayBlockingQueue_ctor [0, 0 :: int]"
  let ?one = "\<lparr>queue = [3, 0 :: int], mutex = False, put_idx = 1, take_idx = 0, count = 1\<rparr>"
  let ?two = "\<lparr>queue = [3, 4 :: int], mutex = False, put_idx = 0, take_idx = 0, count = 2\<rparr>"
  have h1: "wait_push 3 ?full = Returned False ?full"
    by (simp add: wait_push_def unlock_def full_def cap_def Let_def)
  have h2: "wait_pop 7 ?new = Returned (False, 7) ?new"
    by (simp add: wait_pop_def unlock_def empty_q_def ArrayBlockingQueue_ctor_def Let_def)
  have h3: "\<not> mutex ?new"
    by (simp add: ArrayBlockingQueue_ctor_def)
  have m1: "\<not> mutex ?one" and m2: "\<not> mutex ?two"
    by simp_all
  have "wait_push 3 ?new = Returned (\<not> full ?new) (if full ?new then ?new else insert_q 3 ?new)"
    using h3 timed_all_or_nothing [where ele = 3 and q = ?new and res = True and q' = ?one
        and ele' = 7]
    by blast
  then have h4: "wait_push 3 ?new = Returned True ?one"
    by (simp add: full_def cap_def insert_q_def ArrayBlockingQueue_ctor_def Let_def)
  have "wait_push 4 ?one = Returned (\<not> full ?one) (if full ?one then ?one else insert_q 4 ?one)"
    using m1 timed_all_or_nothing [where ele = 4 and q = ?one and res = True and q' = ?two
        and ele' = 7]
    by blast
  then have h5: "wait_push 4 ?one = Returned True ?two"
    by (simp add: full_def cap_def insert_q_def Let_def)
  have "wait_pop 7 ?two =
          (if empty_q ?two then Returned (False, 7) ?two
           else Returned (True, fst (remove_q ?two)) (snd (remove_q ?two)))"
    using m2 timed_all_or_nothing [where ele = 7 and q = ?two and res = True and q' = ?one
        and ele' = 3]
    by blast
  then have h6: "wait_pop 7 ?two = Returned (True, 3)
              \<lparr>queue = [3, 4], mutex = False, put_idx = 0, take_idx = 1, count = 1\<rparr>"
    by (simp add: empty_q_def cap_def remove_q_def Let_def)
  have h7: "full ?full"
    using timed_all_or_nothing [where ele = 3 and q = ?full and res = False and q' = ?full
        and ele' = 7, THEN conjunct1, THEN mp, OF h1, THEN conjunct1]
    by (simp only: if_False simp_thms)
  have h8: "empty_q ?new"
    using timed_all_or_nothing [where ele = 7 and q = ?new and res = False and q' = ?new
        and ele' = 7, THEN conjunct2, THEN conjunct1, THEN mp, OF h2, THEN conjunct1]
    by (simp only: if_False simp_thms)
  have h9: "\<exists>r s. wait_push 3 ?new = Returned r s"
    using h4 by blast
  from h1 h2 h3 h4 h5 h6 h7 h8 h9 show ?thesis
    by (intro conjI)
qed

section \<open>Properties of the ticker\<close>

text \<open>\<^verbatim>\<open>select\<close> on the one descriptor that \<open>tick()\<close> passes.\<close>

lemma select_single:
  "select fails rd nfds {fd} tmo =
     (if fails then (- 1, {fd}) else if fd < nfds \<and> rd fd then (1, {fd}) else (0, {}))"
  by (auto simp: select_def Let_def Collect_conv_if)

text \<open>
  The call in \<open>tick()\<close> returns 0, the timeout, exactly when it does not fail and the
  pipe is empty.
\<close>

lemma select_timeout_iff:
  "fst (select fails (readable t) (fst (pipefds t) + 1) {fst (pipefds t)} (timeout t)) = 0
     \<longleftrightarrow> \<not> fails \<and> pipe_buf t = []"
  by (simp add: select_single readable_def)









section \<open>Properties of the socket\<close>

subsection \<open>The destructor\<close>

text \<open>
  C3. The claim: the destructor of a socket constructed with a protocol and a remote
  address releases both owned objects, each exactly once. The run below constructs a
  socket on an empty free store (the protocol copy is at address 1, the address copy at
  address 2) and destroys it: address 2 is released once and address 1 is never
  released; the protocol object is still live.
\<close>

theorem destructor_keeps_protocol:
  "(case Socket_ctor 3 True \<lparr>family = 2, socktype = 1, proto = 0\<rparr>
           \<lparr>ip = ''127.0.0.1'', port = 8080\<rparr>
           \<lparr>heap = (\<lambda>_. None), next_ptr = 1, released = [], trace = []\<rparr> of
      Returned u (s, w) \<Rightarrow>
        protocol s = 1 \<and> remote_address s = 2
        \<and> released w = []
        \<and> released (Socket_dtor s w) = [2]
        \<and> heap (Socket_dtor s w) 2 = None
        \<and> heap (Socket_dtor s w) 1 = Some (ProtocolObj \<lparr>family = 2, socktype = 1, proto = 0\<rparr>)
    | Blocked sw \<Rightarrow> False
    | Thrown e sw \<Rightarrow> False)"
  by (simp add: Socket_ctor_def Socket_dtor_def new_def delete_def emit_def set_non_blocking_def
      Let_def)

text \<open>What the constructor leaves, for any arguments with which it returns.\<close>

lemma Socket_ctor_Returned:
  assumes "Socket_ctor fd open0 pr remote w = Returned u (s, w')"
  shows "native_handle s = fd" and "non_blocking s" and "sock_open s = open0"
    and "protocol s = next_ptr w" and "remote_address s = Suc (next_ptr w)"
    and "heap w' (protocol s) = Some (ProtocolObj pr)"
    and "heap w' (remote_address s) = Some (AddressObj remote)"
    and "released w' = released w"
    and "trace w' = trace w @ [Sys_socket (family pr) (socktype pr) (proto pr),
                               Posix_non_blocking fd True]"
  using assms
  by (auto simp: Socket_ctor_def new_def emit_def set_non_blocking_def Let_def
      split: if_splits)

text \<open>
  The destructor releases the address object once and the protocol object not at all,
  for every socket that the constructor returns on a store with nothing released yet.
\<close>

lemma Socket_dtor_releases:
  assumes "Socket_ctor fd open0 pr remote w = Returned u (s, w')"
    and "released w = []" and "0 < next_ptr w"
  shows "count_list (released (Socket_dtor s w')) (remote_address s) = 1"
    and "count_list (released (Socket_dtor s w')) (protocol s) = 0"
    and "heap (Socket_dtor s w') (protocol s) = Some (ProtocolObj pr)"
  using Socket_ctor_Returned [OF assms(1)] assms(2,3)
  by (simp_all add: Socket_dtor_def delete_def)

subsection \<open>recv, send and the task\<close>

text \<open>
  C4. The claim: \<open>recv\<close> (\<open>send\<close>) registers READ (WRITE) interest with the executor, and
  on readiness the task performs the system call and calls the callback exactly once.
  The run below, on a socket just constructed: \<open>recv\<close>, then the task called with
  READ ready, then \<open>send\<close>, then the task called with WRITE ready. Each of the four
  leaves the socket and the world as they were: the trace holds the two events of the
  constructor and nothing else, so there is no registration, no system call and no call
  of the callback; and the interest of the task is 0, neither READ nor WRITE.
\<close>

theorem recv_send_do_nothing:
  "(let bits = \<lparr>READ = 1, WRITE = 2, EXCEPT = 4, REMOTE_CLOSE = 8\<rparr>;
        task = \<lparr>task_socket = 3, task_callback = 7\<rparr>;
        sw = state_of (Socket_ctor 3 True \<lparr>family = 2, socktype = 1, proto = 0\<rparr>
               \<lparr>ip = ''127.0.0.1'', port = 8080\<rparr>
               \<lparr>heap = (\<lambda>_. None), next_ptr = 1, released = [], trace = []\<rparr>);
        sw1 = recv 0 16 0 7 sw;
        w2 = TCPSocketIOTask_call bits (READ bits) task (snd sw1);
        sw3 = send 0 16 0 7 (fst sw1, w2);
        w4 = TCPSocketIOTask_call bits (WRITE bits) task (snd sw3)
    in sw1 = sw \<and> w2 = snd sw \<and> sw3 = sw \<and> w4 = snd sw
       \<and> trace w4 = [Sys_socket 2 1 0, Posix_non_blocking 3 True]
       \<and> TCPSocketIOTask_interest task = 0)"
  by (simp add: Socket_ctor_def new_def emit_def set_non_blocking_def recv_def send_def
      TCPSocketIOTask_call_def TCPSocketIOTask_interest_def Let_def)

text \<open>The same for all arguments: the three functions change nothing.\<close>

lemma recv_send_task_identity:
  "recv data sz executor cb sw = sw \<and> send data sz executor cb sw = sw
   \<and> TCPSocketIOTask_call bits ops task w = w"
  by (simp add: recv_def send_def TCPSocketIOTask_call_def)

subsection \<open>close()\<close>

lemma close_closed: "\<not> sock_open (fst sw) \<Longrightarrow> close res msg sw = Returned () sw"
  by (cases sw) (simp add: close_def)

lemma close_bad_handle: "native_handle (fst sw) < 1 \<Longrightarrow> close res msg sw = Returned () sw"
  by (cases sw) (simp add: close_def)

lemma closes_closed: "\<not> sock_open (fst sw) \<Longrightarrow> closes rs sw = Returned () sw"
  by (induction rs) (auto simp: close_closed)

lemma closes_bad_handle: "native_handle (fst sw) < 1 \<Longrightarrow> closes rs sw = Returned () sw"
  by (induction rs) (auto simp: close_bad_handle)

lemma close_Returned:
  "close res msg sw = Returned u sw' \<Longrightarrow>
     \<not> sock_open (fst sw') \<or> native_handle (fst sw') < 1 \<and> sw' = sw"
  by (cases sw) (auto simp: close_def Let_def split: if_splits)

text \<open>
  C7. After a \<open>close()\<close> that returned, any number of further \<open>close()\<close> calls return
  and leave the socket and the world as they are: no event is added to the trace, so
  there is no system call. The first \<open>close()\<close> of an open socket with a handle of at
  least 1 clears the flag and makes one \<^verbatim>\<open>::close\<close> call; when that call returns
  non-zero, \<open>close()\<close> throws the \<^verbatim>\<open>NetException\<close> with the error text.
\<close>

theorem close_idempotent:
  "(close res msg sw = Returned () sw' \<longrightarrow> closes rs sw' = Returned () sw')
   \<and> (sock_open (fst sw) \<and> 1 \<le> native_handle (fst sw) \<and> res = 0 \<longrightarrow>
        close res msg sw =
          Returned () ((fst sw)\<lparr>sock_open := False\<rparr>,
                       emit (Sys_close (native_handle (fst sw))) (snd sw)))
   \<and> (sock_open (fst sw) \<and> 1 \<le> native_handle (fst sw) \<and> res \<noteq> 0 \<longrightarrow>
        close res msg sw =
          Thrown (NetException msg) ((fst sw)\<lparr>sock_open := False\<rparr>,
                                     emit (Sys_close (native_handle (fst sw))) (snd sw)))"
proof (intro conjI impI)
  assume "close res msg sw = Returned () sw'"
  from close_Returned [OF this] show "closes rs sw' = Returned () sw'"
    by (auto simp: closes_closed closes_bad_handle)
next
  assume "sock_open (fst sw) \<and> 1 \<le> native_handle (fst sw) \<and> res = 0"
  then show "close res msg sw =
          Returned () ((fst sw)\<lparr>sock_open := False\<rparr>,
                       emit (Sys_close (native_handle (fst sw))) (snd sw))"
    by (cases sw) (simp add: close_def Let_def)
next
  assume "sock_open (fst sw) \<and> 1 \<le> native_handle (fst sw) \<and> res \<noteq> 0"
  then show "close res msg sw =
          Thrown (NetException msg) ((fst sw)\<lparr>sock_open := False\<rparr>,
                                     emit (Sys_close (native_handle (fst sw))) (snd sw))"
    by (cases sw) (simp add: close_def Let_def)
qed

theorem close_idempotent_witness:
  "close 0 []
     (\<lparr>native_handle = 3, protocol = 1, remote_address = 2, non_blocking = True,
        sock_open = True\<rparr>,
      \<lparr>heap = (\<lambda>_. None), next_ptr = 3, released = [], trace = []\<rparr>)
   = Returned ()
       (\<lparr>native_handle = 3, protocol = 1, remote_address = 2, non_blocking = True,
          sock_open = False\<rparr>,
        \<lparr>heap = (\<lambda>_. None), next_ptr = 3, released = [], trace = [Sys_close 3]\<rparr>)
   \<and> closes [(0, []), (- 1, ''Bad file descriptor'')]
       (\<lparr>native_handle = 3, protocol = 1, remote_address = 2, non_blocking = True,
          sock_open = False\<rparr>,
        \<lparr>heap = (\<lambda>_. None), next_ptr = 3, released = [], trace = [Sys_close 3]\<rparr>)
     = Returned ()
       (\<lparr>native_handle = 3, protocol = 1, remote_address = 2, non_blocking = True,
          sock_open = False\<rparr>,
        \<lparr>heap = (\<lambda>_. None), next_ptr = 3, released = [], trace = [Sys_close 3]\<rparr>)
   \<and> close (- 1) ''Input/output error''
       (\<lparr>native_handle = 3, protocol = 1, remote_address = 2, non_blocking = True,
          sock_open = True\<rparr>,
        \<lparr>heap = (\<lambda>_. None), next_ptr = 3, released = [], trace = []\<rparr>)
     = Thrown (NetException ''Input/output error'')
       (\<lparr>native_handle = 3, protocol = 1, remote_address = 2, non_blocking = True,
          sock_open = False\<rparr>,
        \<lparr>heap = (\<lambda>_. None), next_ptr = 3, released = [], trace = [Sys_close 3]\<rparr>)"
proof -
  let ?s = "\<lparr>native_handle = 3, protocol = 1, remote_address = 2, non_blocking = True,
              sock_open = True\<rparr>"
  let ?w = "\<lparr>heap = (\<lambda>_. None), next_ptr = 3, released = [], trace = []\<rparr>"
  let ?s' = "\<lparr>native_handle = 3, protocol = 1, remote_address = 2, non_blocking = True,
               sock_open = False\<rparr>"
  let ?w' = "\<lparr>heap = (\<lambda>_. None), next_ptr = 3, released = [], trace = [Sys_close 3]\<rparr>"
  have first: "close 0 [] (?s, ?w) = Returned () (?s', ?w')"
    using close_idempotent [of 0 "[]" "(?s, ?w)"] by (simp add: emit_def)
  have again: "closes [(0, []), (- 1, ''Bad file descriptor'')] (?s', ?w') = Returned () (?s', ?w')"
    using first close_idempotent [of 0 "[]" "(?s, ?w)" "(?s', ?w')"] by blast
  have fails: "close (- 1) ''Input/output error'' (?s, ?w)
                 = Thrown (NetException ''Input/output error'') (?s', ?w')"
    using close_idempotent [of "- 1" "''Input/output error''" "(?s, ?w)"] by (simp add: emit_def)
  from first again fails show ?thesis by simp
qed

subsection \<open>connect()\<close>



text \<open>With a non-empty ip the field is what \<^verbatim>\<open>inet_addr\<close> makes of the string.\<close>

lemma connect_literal_ip:
  assumes "heap w (remote_address s) = Some (AddressObj addr)"
    and "heap w (protocol s) = Some (ProtocolObj pr)"
    and "ip addr \<noteq> []"
  shows "connect sock_address inet_addr ret (s, w) =
           Returned ret
             (s, emit (Sys_connect (native_handle s)
                        ((sock_address (ip addr) (port addr) (family pr))
                           \<lparr>sin_addr := inet_addr (ip addr)\<rparr>)) w)"
  using assms by (simp add: connect_def Let_def)


end
